theory Spec2Isabelle
  imports Main "HOL-Library.Word" "HOL-Library.Monad_Syntax"
begin

unbundle bit_operations_syntax

section \<open>Machine types and the output stream\<close>

text \<open>
  Bytes are \<open>uint8_t\<close>, state words \<open>uint32_t\<close> or \<open>uint64_t\<close>; addition wraps as in C++.
  A shift whose count is not smaller than the width of the shifted type is undefined in C++;
  the rotations below return \<open>None\<close> there, and every function that rotates is written in
  the option monad, so that an undefined shift anywhere makes the whole result \<open>None\<close>.
\<close>

type_synonym byte = "8 word"
type_synonym u32 = "32 word"
type_synonym u64 = "64 word"

text \<open>
  \<open>cout << hex << setfill('0') << setw(w) << n\<close>: the digits of \<open>n\<close> in base 16, lower case,
  no leading zeros (one digit for zero), padded on the left with the fill character up to
  the width \<open>w\<close>.
\<close>

definition hex_digit :: "nat \<Rightarrow> char" where
  "hex_digit n = ''0123456789abcdef'' ! n"

function hex_of_nat :: "nat \<Rightarrow> string" where
  "hex_of_nat n = (if n < 16 then [hex_digit n] else hex_of_nat (n div 16) @ [hex_digit (n mod 16)])"
  by pat_completeness auto
termination
  by (relation "measure (\<lambda>n. n)") auto

definition setw_fill :: "nat \<Rightarrow> char \<Rightarrow> string \<Rightarrow> string" where
  "setw_fill w c s = replicate (w - length s) c @ s"

definition print_hex :: "nat \<Rightarrow> nat \<Rightarrow> string" where
  "print_hex w n = setw_fill w (CHR ''0'') (hex_of_nat n)"

section \<open>One-shot MD5 (Md5.cpp)\<close>

definition md5_S :: "nat list" where
  "md5_S = [7, 12, 17, 22,  7, 12, 17, 22,  7, 12, 17, 22,  7, 12, 17, 22,
            5,  9, 14, 20,  5,  9, 14, 20,  5,  9, 14, 20,  5,  9, 14, 20,
            4, 11, 16, 23,  4, 11, 16, 23,  4, 11, 16, 23,  4, 11, 16, 23,
            6, 10, 15, 21,  6, 10, 15, 21,  6, 10, 15, 21,  6, 10, 15, 21]"

definition md5_K :: "u32 list" where
  "md5_K =
     [0xd76aa478, 0xe8c7b756, 0x242070db, 0xc1bdceee]
     @ [0xf57c0faf, 0x4787c62a, 0xa8304613, 0xfd469501]
     @ [0x698098d8, 0x8b44f7af, 0xffff5bb1, 0x895cd7be]
     @ [0x6b901122, 0xfd987193, 0xa679438e, 0x49b40821]
     @ [0xf61e2562, 0xc040b340, 0x265e5a51, 0xe9b6c7aa]
     @ [0xd62f105d, 0x02441453, 0xd8a1e681, 0xe7d3fbc8]
     @ [0x21e1cde6, 0xc33707d6, 0xf4d50d87, 0x455a14ed]
     @ [0xa9e3e905, 0xfcefa3f8, 0x676f02d9, 0x8d2a4c8a]
     @ [0xfffa3942, 0x8771f681, 0x6d9d6122, 0xfde5380c]
     @ [0xa4beea44, 0x4bdecfa9, 0xf6bb4b60, 0xbebfbc70]
     @ [0x289b7ec6, 0xeaa127fa, 0xd4ef3085, 0x04881d05]
     @ [0xd9d4d039, 0xe6db99e5, 0x1fa27cf8, 0xc4ac5665]
     @ [0xf4292244, 0x432aff97, 0xab9423a7, 0xfc93a039]
     @ [0x655b59c3, 0x8f0ccc92, 0xffeff47d, 0x85845dd1]
     @ [0x6fa87e4f, 0xfe2ce6e0, 0xa3014314, 0x4e0811a1]
     @ [0xf7537e82, 0xbd3af235, 0x2ad7d2bb, 0xeb86d391]"

text \<open>
  \<open>leftRotate(x, c) = (x << c) | (x >> (32 - c))\<close> on \<open>uint32_t\<close>: both shifts are defined
  exactly when \<open>0 < c < 32\<close>.
\<close>

definition leftRotate :: "u32 \<Rightarrow> nat \<Rightarrow> u32 option" where
  "leftRotate x c =
     (if c < 32 \<and> 32 - c < 32 then Some (push_bit c x OR drop_bit (32 - c) x) else None)"

definition md5_F :: "u32 \<Rightarrow> u32 \<Rightarrow> u32 \<Rightarrow> u32" where
  "md5_F x y z = (x AND y) OR (NOT x AND z)"

definition md5_G :: "u32 \<Rightarrow> u32 \<Rightarrow> u32 \<Rightarrow> u32" where
  "md5_G x y z = (x AND z) OR (y AND NOT z)"

definition md5_H :: "u32 \<Rightarrow> u32 \<Rightarrow> u32 \<Rightarrow> u32" where
  "md5_H x y z = x XOR y XOR z"

definition md5_I :: "u32 \<Rightarrow> u32 \<Rightarrow> u32 \<Rightarrow> u32" where
  "md5_I x y z = y XOR (x OR NOT z)"

text \<open>The distance of a length \<open>n\<close> from the next length that is \<open>t\<close> modulo \<open>b\<close>: the
  measure of the zero-fill loops.\<close>

definition fill_dist :: "nat \<Rightarrow> nat \<Rightarrow> nat \<Rightarrow> nat" where
  "fill_dist b t n = (if n mod b \<le> t then t - n mod b else b + t - n mod b)"

lemma fill_dist_Suc:
  assumes "n mod b \<noteq> t" "t < b"
  shows "fill_dist b t (Suc n) < fill_dist b t n"
proof -
  define r where "r = n mod b"
  have rb: "r < b" using assms by (simp add: r_def)
  have rt: "r \<noteq> t" using assms by (simp add: r_def)
  have "Suc n mod b = (if Suc r = b then 0 else Suc r)"
    by (simp add: mod_Suc r_def)
  then have "fill_dist b t (Suc n) =
      (if Suc r = b then t else if Suc r \<le> t then t - Suc r else b + t - Suc r)"
    by (simp add: fill_dist_def)
  moreover have "fill_dist b t n = (if r \<le> t then t - r else b + t - r)"
    by (simp add: fill_dist_def r_def)
  ultimately show ?thesis using rb rt assms(2) by (simp split: if_splits)
qed

lemma bits_mod_512: "(n * 8) mod 512 = (n mod 64) * (8::nat)"
proof -
  have "(n * 8) mod (64 * 8) = (n mod 64) * 8"
    by (simp only: mult_mod_left)
  thus ?thesis by simp
qed

text \<open>\<open>while ((paddedMessage.size() * 8) % 512 != 448) paddedMessage.push_back(0x00);\<close>\<close>

function md5_zero_fill :: "byte list \<Rightarrow> byte list" where
  "md5_zero_fill p = (if (length p * 8) mod 512 \<noteq> 448 then md5_zero_fill (p @ [0x00]) else p)"
  by pat_completeness auto
termination
proof (relation "measure (\<lambda>p. fill_dist 64 56 (length p))")
  show "wf (measure (\<lambda>p::byte list. fill_dist 64 56 (length p)))" by simp
next
  fix p :: "byte list"
  assume "length p * 8 mod 512 \<noteq> 448"
  then have "length p mod 64 \<noteq> 56" by (simp add: bits_mod_512)
  then show "(p @ [0], p) \<in> measure (\<lambda>p. fill_dist 64 56 (length p))"
    using fill_dist_Suc [of "length p" 64 56] by simp
qed

text \<open>
  The padding of \<open>md5\<close>: the marker byte, the zero fill, and
  \<open>originalLengthBits = message.length() * 8\<close> (a \<open>uint64_t\<close>) pushed byte by byte,
  \<open>(originalLengthBits >> (i * 8)) & 0xFF\<close> for \<open>i = 0..7\<close>.
\<close>

definition md5_length_bytes :: "u64 \<Rightarrow> byte list" where
  "md5_length_bytes originalLengthBits =
     map (\<lambda>i. ucast (drop_bit (i * 8) originalLengthBits AND 0xFF)) [0..<8]"

definition md5_pad :: "byte list \<Rightarrow> byte list" where
  "md5_pad message =
     md5_zero_fill (message @ [0x80]) @ md5_length_bytes (of_nat (length message) * 8)"

text \<open>\<open>M[j]\<close>: four bytes at \<open>i + j * 4\<close>, least significant first.\<close>

definition md5_decode :: "byte list \<Rightarrow> nat \<Rightarrow> nat \<Rightarrow> u32" where
  "md5_decode p i j =
     ucast (p ! (i + j * 4)) OR push_bit 8 (ucast (p ! (i + j * 4 + 1)))
       OR push_bit 16 (ucast (p ! (i + j * 4 + 2))) OR push_bit 24 (ucast (p ! (i + j * 4 + 3)))"

definition md5_words :: "byte list \<Rightarrow> nat \<Rightarrow> u32 list" where
  "md5_words p i = map (md5_decode p i) [0..<16]"

type_synonym md5_state = "u32 \<times> u32 \<times> u32 \<times> u32"

text \<open>One pass of the loop \<open>for (int j = 0; j < 64; ++j)\<close> on the working variables.\<close>

fun md5_round :: "u32 list \<Rightarrow> nat \<Rightarrow> md5_state \<Rightarrow> md5_state option" where
  "md5_round M j (A, B, C, D) =
     (let f = (if j < 16 then md5_F B C D
               else if j < 32 then md5_G B C D
               else if j < 48 then md5_H B C D
               else md5_I B C D);
          g = (if j < 16 then j
               else if j < 32 then (5 * j + 1) mod 16
               else if j < 48 then (3 * j + 5) mod 16
               else (7 * j) mod 16)
      in map_option (\<lambda>r. (D, B + r, B, C)) (leftRotate (A + f + md5_K ! j + M ! g) (md5_S ! j)))"

definition md5_rounds :: "u32 list \<Rightarrow> md5_state \<Rightarrow> md5_state option" where
  "md5_rounds M st = fold (\<lambda>j acc. acc \<bind> md5_round M j) [0..<64] (Some st)"

fun md5_add :: "md5_state \<Rightarrow> md5_state \<Rightarrow> md5_state" where
  "md5_add (a0, b0, c0, d0) (A, B, C, D) = (a0 + A, b0 + B, c0 + C, d0 + D)"

text \<open>The body of the chunk loop at offset \<open>i\<close>.\<close>

definition md5_block :: "byte list \<Rightarrow> nat \<Rightarrow> md5_state \<Rightarrow> md5_state option" where
  "md5_block p i st = map_option (md5_add st) (md5_rounds (md5_words p i) st)"

text \<open>\<open>for (size_t i = 0; i < paddedMessage.size(); i += 64)\<close>\<close>

function md5_chunks :: "byte list \<Rightarrow> nat \<Rightarrow> md5_state option \<Rightarrow> md5_state option" where
  "md5_chunks p i acc =
     (if i < length p then md5_chunks p (i + 64) (acc \<bind> md5_block p i) else acc)"
  by pat_completeness auto
termination
  by (relation "measure (\<lambda>(p, i, acc). length p - i)") auto

definition md5_init :: md5_state where
  "md5_init = (0x67452301, 0xefcdab89, 0x98badcfe, 0x10325476)"

definition md5_digest :: "byte list \<Rightarrow> md5_state option" where
  "md5_digest message = md5_chunks (md5_pad message) 0 (Some md5_init)"

text \<open>
  The output loop prints the four bytes of each state word in memory order,
  \<open>((uint8_t*)&result[i])[j]\<close>, each with \<open>setw(2)\<close>. The order of the bytes in memory is the
  host's; the model takes a little-endian host (least significant byte first), the layout
  the program was written for.
\<close>

definition md5_word_bytes :: "u32 \<Rightarrow> byte list" where
  "md5_word_bytes x = map (\<lambda>j. ucast (drop_bit (8 * j) x)) [0..<4]"

definition md5_print_byte :: "byte \<Rightarrow> string" where
  "md5_print_byte b = print_hex 2 (unat b)"

definition md5_print_word :: "u32 \<Rightarrow> string" where
  "md5_print_word x = concat (map md5_print_byte (md5_word_bytes x))"

fun md5_output :: "md5_state \<Rightarrow> string" where
  "md5_output (a0, b0, c0, d0) = concat (map md5_print_word [a0, b0, c0, d0])"

definition md5 :: "byte list \<Rightarrow> string option" where
  "md5 message = map_option md5_output (md5_digest message)"

section \<open>Streaming MD5 (src/Md5.cpp)\<close>

text \<open>
  The streaming program has its own copies of the tables \<open>S\<close> and \<open>K\<close>, of \<open>leftRotate\<close>
  and of \<open>F\<close>, \<open>G\<close>, \<open>H\<close>, \<open>I\<close>, equal to the one-shot program's; the model shares them.
  Its \<open>transform\<close> reads the block through a pointer, \<open>block[j * 4 + k]\<close> for \<open>j < 16\<close>:
  the model passes the array the pointer points into and reads the same indices.
\<close>

definition md5s_words :: "byte list \<Rightarrow> u32 list" where
  "md5s_words block = map (md5_decode block 0) [0..<16]"

text \<open>
  The working variables \<open>A\<close>, \<open>B\<close>, \<open>C\<close>, \<open>D\<close> of \<open>transform\<close>, named, since the macros
  \<open>STEP1\<close> .. \<open>STEP4\<close> take the variables they read and assign as arguments.
\<close>

datatype md5_reg = RA | RB | RC | RD

fun reg_get :: "md5_state \<Rightarrow> md5_reg \<Rightarrow> u32" where
  "reg_get (A, B, C, D) RA = A"
| "reg_get (A, B, C, D) RB = B"
| "reg_get (A, B, C, D) RC = C"
| "reg_get (A, B, C, D) RD = D"

fun reg_set :: "md5_state \<Rightarrow> md5_reg \<Rightarrow> u32 \<Rightarrow> md5_state" where
  "reg_set (A, B, C, D) RA x = (x, B, C, D)"
| "reg_set (A, B, C, D) RB x = (A, x, C, D)"
| "reg_set (A, B, C, D) RC x = (A, B, x, D)"
| "reg_set (A, B, C, D) RD x = (A, B, C, x)"

text \<open>
  \<open>STEPn(f, a, b, c, d, k, s, i)\<close> expands to
  \<open>a += Fn(b, c, d) + M[k] + K[i]; a = b + leftRotate(a, s)\<close>, where the function is fixed by
  the macro (\<open>F\<close> for \<open>STEP1\<close>, \<open>G\<close>, \<open>H\<close>, \<open>I\<close> for the others; the argument \<open>f\<close> is not
  used), and \<open>STEP1\<close> has no \<open>i\<close>: it reads \<open>K[k]\<close>.
\<close>

definition md5s_step ::
  "(u32 \<Rightarrow> u32 \<Rightarrow> u32 \<Rightarrow> u32) \<Rightarrow> u32 list \<Rightarrow> md5_reg \<Rightarrow> md5_reg \<Rightarrow> md5_reg \<Rightarrow> md5_reg
     \<Rightarrow> nat \<Rightarrow> nat \<Rightarrow> nat \<Rightarrow> md5_state \<Rightarrow> md5_state option" where
  "md5s_step fn M a b c d k s i st =
     map_option (\<lambda>r. reg_set st a (reg_get st b + r))
       (leftRotate
          (reg_get st a + (fn (reg_get st b) (reg_get st c) (reg_get st d) + M ! k + md5_K ! i)) s)"

definition STEP1 ::
  "u32 list \<Rightarrow> md5_reg \<Rightarrow> md5_reg \<Rightarrow> md5_reg \<Rightarrow> md5_reg \<Rightarrow> nat \<Rightarrow> nat
     \<Rightarrow> md5_state \<Rightarrow> md5_state option" where
  "STEP1 M a b c d k s = md5s_step md5_F M a b c d k s k"

definition STEP2 ::
  "u32 list \<Rightarrow> md5_reg \<Rightarrow> md5_reg \<Rightarrow> md5_reg \<Rightarrow> md5_reg \<Rightarrow> nat \<Rightarrow> nat \<Rightarrow> nat
     \<Rightarrow> md5_state \<Rightarrow> md5_state option" where
  "STEP2 M a b c d k s i = md5s_step md5_G M a b c d k s i"

definition STEP3 ::
  "u32 list \<Rightarrow> md5_reg \<Rightarrow> md5_reg \<Rightarrow> md5_reg \<Rightarrow> md5_reg \<Rightarrow> nat \<Rightarrow> nat \<Rightarrow> nat
     \<Rightarrow> md5_state \<Rightarrow> md5_state option" where
  "STEP3 M a b c d k s i = md5s_step md5_H M a b c d k s i"

definition STEP4 ::
  "u32 list \<Rightarrow> md5_reg \<Rightarrow> md5_reg \<Rightarrow> md5_reg \<Rightarrow> md5_reg \<Rightarrow> nat \<Rightarrow> nat \<Rightarrow> nat
     \<Rightarrow> md5_state \<Rightarrow> md5_state option" where
  "STEP4 M a b c d k s i = md5s_step md5_I M a b c d k s i"

text \<open>The sixty-four unrolled statements of \<open>transform\<close>, in the order of the source.\<close>

definition md5s_steps :: "u32 list \<Rightarrow> (md5_state \<Rightarrow> md5_state option) list" where
  "md5s_steps M =
   [STEP1 M RA RB RC RD 0 7, STEP1 M RD RA RB RC 1 12, STEP1 M RC RD RA RB 2 17, STEP1 M RB RC RD RA 3 22,
    STEP1 M RA RB RC RD 4 7, STEP1 M RD RA RB RC 5 12, STEP1 M RC RD RA RB 6 17, STEP1 M RB RC RD RA 7 22,
    STEP1 M RA RB RC RD 8 7, STEP1 M RD RA RB RC 9 12, STEP1 M RC RD RA RB 10 17, STEP1 M RB RC RD RA 11 22,
    STEP1 M RA RB RC RD 12 7, STEP1 M RD RA RB RC 13 12, STEP1 M RC RD RA RB 14 17, STEP1 M RB RC RD RA 15 22,

    STEP2 M RA RB RC RD 1 5 16, STEP2 M RD RA RB RC 6 9 17, STEP2 M RC RD RA RB 11 14 18, STEP2 M RB RC RD RA 0 20 19,
    STEP2 M RA RB RC RD 5 5 20, STEP2 M RD RA RB RC 10 9 21, STEP2 M RC RD RA RB 15 14 22, STEP2 M RB RC RD RA 4 20 23,
    STEP2 M RA RB RC RD 9 5 24, STEP2 M RD RA RB RC 14 9 25, STEP2 M RC RD RA RB 3 14 26, STEP2 M RB RC RD RA 8 20 27,
    STEP2 M RA RB RC RD 13 5 28, STEP2 M RD RA RB RC 2 9 29, STEP2 M RC RD RA RB 7 14 30, STEP2 M RB RC RD RA 12 20 31,

    STEP3 M RA RB RC RD 5 4 32, STEP3 M RD RA RB RC 8 11 33, STEP3 M RC RD RA RB 11 16 34, STEP3 M RB RC RD RA 14 23 35,
    STEP3 M RA RB RC RD 1 4 36, STEP3 M RD RA RB RC 4 11 37, STEP3 M RC RD RA RB 7 16 38, STEP3 M RB RC RD RA 10 23 39,
    STEP3 M RA RB RC RD 13 4 40, STEP3 M RD RA RB RC 0 11 41, STEP3 M RC RD RA RB 3 16 42, STEP3 M RB RC RD RA 6 23 43,
    STEP3 M RA RB RC RD 9 4 44, STEP3 M RD RA RB RC 12 11 45, STEP3 M RC RD RA RB 15 16 46, STEP3 M RB RC RD RA 2 23 47,

    STEP4 M RA RB RC RD 0 6 48, STEP4 M RD RA RB RC 7 10 49, STEP4 M RC RD RA RB 14 15 50, STEP4 M RB RC RD RA 5 21 51,
    STEP4 M RA RB RC RD 12 6 52, STEP4 M RD RA RB RC 3 10 53, STEP4 M RC RD RA RB 10 15 54, STEP4 M RB RC RD RA 1 21 55,
    STEP4 M RA RB RC RD 8 6 56, STEP4 M RD RA RB RC 15 10 57, STEP4 M RC RD RA RB 6 15 58, STEP4 M RB RC RD RA 13 21 59,
    STEP4 M RA RB RC RD 4 6 60, STEP4 M RD RA RB RC 11 10 61, STEP4 M RC RD RA RB 2 15 62, STEP4 M RB RC RD RA 9 21 63]"

definition md5s_run :: "u32 list \<Rightarrow> md5_state \<Rightarrow> md5_state option" where
  "md5s_run M st = fold (\<lambda>step acc. acc \<bind> step) (md5s_steps M) (Some st)"

definition md5s_transform :: "byte list \<Rightarrow> md5_state \<Rightarrow> md5_state option" where
  "md5s_transform block st = map_option (md5_add st) (md5s_run (md5s_words block) st)"

text \<open>
  \<open>main\<close>. Standard input is the list of bytes not yet read. \<open>cin.read((char*)buffer, 64)\<close>
  succeeds when 64 bytes are left and stores them in \<open>buffer\<close>; otherwise it stores the
  bytes that are left at the start of \<open>buffer\<close>, fails, and \<open>cin.gcount()\<close> is their number.
  The loop returns the state, \<open>totalBytes\<close>, \<open>buffer\<close> and \<open>bytesRead\<close>.
\<close>

function md5s_read_loop ::
  "byte list \<Rightarrow> md5_state option \<Rightarrow> u64 \<Rightarrow> byte list \<Rightarrow> md5_state option \<times> u64 \<times> byte list \<times> nat"
  where
  "md5s_read_loop input acc totalBytes buffer =
     (if 64 \<le> length input
      then md5s_read_loop (drop 64 input) (acc \<bind> md5s_transform (take 64 input))
             (totalBytes + 64) (take 64 input)
      else (acc, totalBytes, input @ drop (length input) buffer, length input))"
  by pat_completeness auto
termination
  by (relation "measure (\<lambda>(input, acc, totalBytes, buffer). length input)") auto

text \<open>\<open>memcpy(dst, src, n)\<close> and \<open>memset(dst, 0, n)\<close> on arrays.\<close>

definition memcpy :: "byte list \<Rightarrow> byte list \<Rightarrow> nat \<Rightarrow> byte list" where
  "memcpy dst src n = take n src @ drop n dst"

definition memset0 :: "byte list \<Rightarrow> nat \<Rightarrow> byte list" where
  "memset0 dst n = replicate n 0 @ drop n dst"

text \<open>\<open>for (int i = 0; i < 8; ++i) finalBlock[56 + i] = (totalBits >> (i * 8)) & 0xFF;\<close>\<close>

definition md5s_store_length :: "byte list \<Rightarrow> u64 \<Rightarrow> byte list" where
  "md5s_store_length finalBlock totalBits =
     fold (\<lambda>i blk. blk[56 + i := ucast (drop_bit (i * 8) totalBits AND 0xFF)]) [0..<8] finalBlock"

text \<open>
  The statements of \<open>main\<close> after the read loop, in order: the first padding buffer
  \<open>padding\<close>, which is passed to \<open>transform\<close> when \<open>bytesRead >= 56\<close>, and then the second
  buffer \<open>finalBlock\<close>, built from \<open>buffer\<close> again, with its own one or two calls of
  \<open>transform\<close>. (\<open>paddingLen\<close> and \<open>lengthOffset\<close> are assigned and never read.)
\<close>

definition md5s_padding :: "byte list \<Rightarrow> nat \<Rightarrow> byte list" where
  "md5s_padding buffer bytesRead = (memcpy (replicate 128 0) buffer bytesRead)[bytesRead := 0x80]"

definition md5s_first_pass :: "md5_state option \<Rightarrow> byte list \<Rightarrow> nat \<Rightarrow> md5_state option" where
  "md5s_first_pass acc padding bytesRead =
     (if bytesRead \<ge> 56 then acc \<bind> md5s_transform padding else acc)"

definition md5s_second_pass ::
  "md5_state option \<Rightarrow> byte list \<Rightarrow> nat \<Rightarrow> u64 \<Rightarrow> md5_state option" where
  "md5s_second_pass acc finalBlock bytesRead totalBits =
     (if bytesRead < 56
      then acc \<bind> md5s_transform (md5s_store_length finalBlock totalBits)
      else (acc \<bind> md5s_transform finalBlock)
             \<bind> md5s_transform (md5s_store_length (memset0 finalBlock 64) totalBits))"

fun md5s_finish :: "md5_state option \<times> u64 \<times> byte list \<times> nat \<Rightarrow> md5_state option" where
  "md5s_finish (acc, totalBytes, buffer, bytesRead) =
     md5s_second_pass
       (md5s_first_pass acc (md5s_padding buffer bytesRead) bytesRead)
       (md5s_padding buffer bytesRead) bytesRead
       ((totalBytes + of_nat bytesRead) * 8)"

definition md5s_digest :: "byte list \<Rightarrow> md5_state option" where
  "md5s_digest input = md5s_finish (md5s_read_loop input (Some md5_init) 0 (replicate 64 0))"

definition md5s_main :: "byte list \<Rightarrow> string option" where
  "md5s_main input = map_option md5_output (md5s_digest input)"

section \<open>One-shot SHA-1 (Sha1.cpp)\<close>

text \<open>The program has its own \<open>leftRotate\<close>, the same function as MD5's; the model shares it.\<close>

function sha1_zero_fill :: "byte list \<Rightarrow> byte list" where
  "sha1_zero_fill p = (if (length p * 8) mod 512 \<noteq> 448 then sha1_zero_fill (p @ [0x00]) else p)"
  by pat_completeness auto
termination
proof (relation "measure (\<lambda>p. fill_dist 64 56 (length p))")
  show "wf (measure (\<lambda>p::byte list. fill_dist 64 56 (length p)))" by simp
next
  fix p :: "byte list"
  assume "length p * 8 mod 512 \<noteq> 448"
  then have "length p mod 64 \<noteq> 56" by (simp add: bits_mod_512)
  then show "(p @ [0], p) \<in> measure (\<lambda>p. fill_dist 64 56 (length p))"
    using fill_dist_Suc [of "length p" 64 56] by simp
qed

text \<open>\<open>for (int i = 7; i >= 0; --i) push_back((originalLengthBits >> (i * 8)) & 0xFF);\<close>\<close>

definition sha1_length_bytes :: "u64 \<Rightarrow> byte list" where
  "sha1_length_bytes originalLengthBits =
     map (\<lambda>i. ucast (drop_bit (i * 8) originalLengthBits AND 0xFF)) (rev [0..<8])"

definition sha1_pad :: "byte list \<Rightarrow> byte list" where
  "sha1_pad message =
     sha1_zero_fill (message @ [0x80]) @ sha1_length_bytes (of_nat (length message) * 8)"

text \<open>\<open>w[j]\<close> for \<open>j < 16\<close>: four bytes at \<open>i + j * 4\<close>, most significant first.\<close>

definition sha1_decode :: "byte list \<Rightarrow> nat \<Rightarrow> nat \<Rightarrow> u32" where
  "sha1_decode p i j =
     push_bit 24 (ucast (p ! (i + j * 4))) OR push_bit 16 (ucast (p ! (i + j * 4 + 1)))
       OR push_bit 8 (ucast (p ! (i + j * 4 + 2))) OR ucast (p ! (i + j * 4 + 3))"

text \<open>
  The array \<open>w[80]\<close>: its first sixteen entries are decoded from the chunk, the others are
  assigned in increasing order by the extension loop, each from entries assigned before
  (the model starts them at zero; the program never reads one before assigning it).
\<close>

definition sha1_words :: "byte list \<Rightarrow> nat \<Rightarrow> u32 list" where
  "sha1_words p i = map (sha1_decode p i) [0..<16] @ replicate 64 0"

definition sha1_extend_step :: "nat \<Rightarrow> u32 list \<Rightarrow> u32 list option" where
  "sha1_extend_step j w =
     map_option (\<lambda>x. w[j := x])
       (leftRotate (w ! (j - 3) XOR w ! (j - 8) XOR w ! (j - 14) XOR w ! (j - 16)) 1)"

definition sha1_extend :: "u32 list \<Rightarrow> u32 list option" where
  "sha1_extend w = fold (\<lambda>j acc. acc \<bind> sha1_extend_step j) [16..<80] (Some w)"

type_synonym sha1_state = "u32 \<times> u32 \<times> u32 \<times> u32 \<times> u32"

text \<open>One pass of the loop \<open>for (int j = 0; j < 80; ++j)\<close>.\<close>

definition sha1_f :: "nat \<Rightarrow> u32 \<Rightarrow> u32 \<Rightarrow> u32 \<Rightarrow> u32" where
  "sha1_f j b c d =
     (if j < 20 then (b AND c) OR ((NOT b) AND d)
      else if j < 40 then b XOR c XOR d
      else if j < 60 then (b AND c) OR (b AND d) OR (c AND d)
      else b XOR c XOR d)"

definition sha1_k :: "nat \<Rightarrow> u32" where
  "sha1_k j =
     (if j < 20 then 0x5A827999
      else if j < 40 then 0x6ED9EBA1
      else if j < 60 then 0x8F1BBCDC
      else 0xCA62C1D6)"

fun sha1_round :: "u32 list \<Rightarrow> nat \<Rightarrow> sha1_state \<Rightarrow> sha1_state option" where
  "sha1_round w j (a, b, c, d, e) =
     do { r5 \<leftarrow> leftRotate a 5;
          r30 \<leftarrow> leftRotate b 30;
          Some (r5 + sha1_f j b c d + e + sha1_k j + w ! j, a, r30, c, d) }"

definition sha1_rounds :: "sha1_state \<Rightarrow> u32 list \<Rightarrow> sha1_state option" where
  "sha1_rounds st w = fold (\<lambda>j acc. acc \<bind> sha1_round w j) [0..<80] (Some st)"

fun sha1_add :: "sha1_state \<Rightarrow> sha1_state \<Rightarrow> sha1_state" where
  "sha1_add (h0, h1, h2, h3, h4) (a, b, c, d, e) = (h0 + a, h1 + b, h2 + c, h3 + d, h4 + e)"

definition sha1_block :: "byte list \<Rightarrow> nat \<Rightarrow> sha1_state \<Rightarrow> sha1_state option" where
  "sha1_block p i st = map_option (sha1_add st) (sha1_extend (sha1_words p i) \<bind> sha1_rounds st)"

function sha1_chunks :: "byte list \<Rightarrow> nat \<Rightarrow> sha1_state option \<Rightarrow> sha1_state option" where
  "sha1_chunks p i acc =
     (if i < length p then sha1_chunks p (i + 64) (acc \<bind> sha1_block p i) else acc)"
  by pat_completeness auto
termination
  by (relation "measure (\<lambda>(p, i, acc). length p - i)") auto

definition sha1_init :: sha1_state where
  "sha1_init = (0x67452301, 0xEFCDAB89, 0x98BADCFE, 0x10325476, 0xC3D2E1F0)"

definition sha1_digest :: "byte list \<Rightarrow> sha1_state option" where
  "sha1_digest message = sha1_chunks (sha1_pad message) 0 (Some sha1_init)"

text \<open>\<open>cout << hex << setfill('0') << setw(8) << result[i]\<close> for the five state words.\<close>

definition sha1_print_word :: "u32 \<Rightarrow> string" where
  "sha1_print_word x = print_hex 8 (unat x)"

fun sha1_output :: "sha1_state \<Rightarrow> string" where
  "sha1_output (h0, h1, h2, h3, h4) = concat (map sha1_print_word [h0, h1, h2, h3, h4])"

definition sha1 :: "byte list \<Rightarrow> string option" where
  "sha1 message = map_option sha1_output (sha1_digest message)"

section \<open>The helpers of sha.h\<close>

text \<open>\<open>TextToBinaryString\<close>: the bits of every character, most significant first;
  \<open>bitLength\<close> is the length of the result.\<close>

definition TextToBinaryString :: "byte list \<Rightarrow> bool list" where
  "TextToBinaryString words = concat (map (\<lambda>c. map (\<lambda>i. bit c i) (rev [0..<8])) words)"

text \<open>
  \<open>bitsToUsignedInt<T>(bits, start)\<close>: the loop \<open>for (size_t i = 0; i < 32; ++i)\<close> shifts
  the accumulator left by one and sets its lowest bit to \<open>bits[start + i]\<close>. The bound of the
  loop is 32 for every \<open>T\<close>.
\<close>

definition bitsToUsignedInt :: "bool list \<Rightarrow> nat \<Rightarrow> 'a::len word" where
  "bitsToUsignedInt bits start =
     fold (\<lambda>i v. if bits ! (start + i) then push_bit 1 v OR 1 else push_bit 1 v OR 0) [0..<32] 0"

text \<open>
  \<open>rotateRightByN<T>(x, n, digestsBit) = (x >> n) | (x << (digestsBit - n))\<close>, where
  \<open>digestsBit - n\<close> is computed in \<open>unsigned int\<close>: both shifts are defined exactly when
  \<open>n\<close> and \<open>digestsBit - n\<close> (without wrap-around) are smaller than the width of \<open>T\<close>.
\<close>

definition rotateRightByN :: "'a::len word \<Rightarrow> nat \<Rightarrow> nat \<Rightarrow> 'a word option" where
  "rotateRightByN x n digestsBit =
     (if n < LENGTH('a) \<and> n \<le> digestsBit \<and> digestsBit - n < LENGTH('a)
      then Some (drop_bit n x OR push_bit (digestsBit - n) x) else None)"

text \<open>
  \<open>bitsetToHex(bits, digestsBit)\<close>: for \<open>i = digestsBit - 4, digestsBit - 8, ...\<close> while
  \<open>i >= 0\<close>, the four bits at \<open>i .. i + 3\<close> are assembled, the first as the most significant,
  and the number is written in base 16 to a string stream; the string is reversed at the end.
\<close>

definition nibble_at :: "bool list \<Rightarrow> nat \<Rightarrow> nat" where
  "nibble_at bits i = fold (\<lambda>j v. if bits ! (i + j) then v OR push_bit (3 - j) 1 else v) [0..<4] 0"

function bitsetToHex_loop :: "bool list \<Rightarrow> int \<Rightarrow> string \<Rightarrow> string" where
  "bitsetToHex_loop bits i ss =
     (if i \<ge> 0 then bitsetToHex_loop bits (i - 4) (ss @ hex_of_nat (nibble_at bits (nat i))) else ss)"
  by pat_completeness auto
termination
  by (relation "measure (\<lambda>(bits, i, ss). nat (i + 1))") auto

definition bitsetToHex :: "bool list \<Rightarrow> nat \<Rightarrow> string" where
  "bitsetToHex bits digestsBit = rev (bitsetToHex_loop bits (int digestsBit - 4) [])"

section \<open>SHA-256 (Sha256.cpp)\<close>

text \<open>
  \<open>preProcessing(length, binMessage)\<close>: the bit 1, zero bits while
  \<open>(length + 1 + K + 64) % 512 != 0\<close>, and the 64 bits of \<open>length\<close>, most significant first.
  \<open>length\<close> is a \<open>size_t\<close>, the number of bits of the message; the sum is computed modulo
  \<open>2^64\<close>, which does not change its remainder modulo 512, so the model computes it on
  natural numbers.
\<close>

function sha256_zero_fill :: "nat \<Rightarrow> nat \<Rightarrow> bool list \<Rightarrow> bool list" where
  "sha256_zero_fill len K binMessage =
     (if (len + 1 + K + 64) mod 512 \<noteq> 0
      then sha256_zero_fill len (K + 1) (binMessage @ [False]) else binMessage)"
  by pat_completeness auto
termination
proof (relation "measure (\<lambda>(len, K, binMessage). fill_dist 512 0 (len + 1 + K + 64))")
  show "wf (measure (\<lambda>(len::nat, K::nat, binMessage::bool list). fill_dist 512 0 (len + 1 + K + 64)))"
    by simp
next
  fix len K :: nat and binMessage :: "bool list"
  assume "(len + 1 + K + 64) mod 512 \<noteq> 0"
  then show "((len, K + 1, binMessage @ [False]), (len, K, binMessage))
      \<in> measure (\<lambda>(len, K, binMessage). fill_dist 512 0 (len + 1 + K + 64))"
    using fill_dist_Suc [of "len + 1 + K + 64" 512 0] by simp
qed

definition sha256_preProcessing :: "nat \<Rightarrow> bool list \<Rightarrow> bool list" where
  "sha256_preProcessing len binMessage =
     sha256_zero_fill len 0 (binMessage @ [True]) @ map (\<lambda>i. bit len i) (rev [0..<64])"

type_synonym sha256_state = "u32 \<times> u32 \<times> u32 \<times> u32 \<times> u32 \<times> u32 \<times> u32 \<times> u32"

text \<open>The array \<open>w[64] = {}\<close> with its first sixteen entries read from the chunk at \<open>pointer\<close>.\<close>

definition sha256_word :: "bool list \<Rightarrow> nat \<Rightarrow> nat \<Rightarrow> u32" where
  "sha256_word binMessage pointer i = bitsToUsignedInt binMessage (pointer + i * 32)"

definition sha256_words :: "bool list \<Rightarrow> nat \<Rightarrow> u32 list" where
  "sha256_words binMessage pointer = map (sha256_word binMessage pointer) [0..<16] @ replicate 48 0"

definition sha256_s0 :: "u32 \<Rightarrow> u32 option" where
  "sha256_s0 x =
     do { r7 \<leftarrow> rotateRightByN x 7 32; r18 \<leftarrow> rotateRightByN x 18 32;
          Some (r7 XOR r18 XOR drop_bit 3 x) }"

definition sha256_s1 :: "u32 \<Rightarrow> u32 option" where
  "sha256_s1 x =
     do { r17 \<leftarrow> rotateRightByN x 17 32; r19 \<leftarrow> rotateRightByN x 19 32;
          Some (r17 XOR r19 XOR drop_bit 10 x) }"

definition sha256_extend_step :: "nat \<Rightarrow> u32 list \<Rightarrow> u32 list option" where
  "sha256_extend_step i w =
     do { s0 \<leftarrow> sha256_s0 (w ! (i - 15)); s1 \<leftarrow> sha256_s1 (w ! (i - 2));
          Some (w[i := w ! (i - 16) + s0 + w ! (i - 7) + s1]) }"

definition sha256_extend :: "u32 list \<Rightarrow> u32 list option" where
  "sha256_extend w = fold (\<lambda>i acc. acc \<bind> sha256_extend_step i) [16..<64] (Some w)"

definition sha256_S1 :: "u32 \<Rightarrow> u32 option" where
  "sha256_S1 e =
     do { r6 \<leftarrow> rotateRightByN e 6 32; r11 \<leftarrow> rotateRightByN e 11 32;
          r25 \<leftarrow> rotateRightByN e 25 32; Some (r6 XOR r11 XOR r25) }"

definition sha256_S0 :: "u32 \<Rightarrow> u32 option" where
  "sha256_S0 a =
     do { r2 \<leftarrow> rotateRightByN a 2 32; r13 \<leftarrow> rotateRightByN a 13 32;
          r22 \<leftarrow> rotateRightByN a 22 32; Some (r2 XOR r13 XOR r22) }"

text \<open>The assignments at the end of one pass of the loop over the 64 rounds.\<close>

fun sha256_assign :: "sha256_state \<Rightarrow> u32 \<Rightarrow> u32 \<Rightarrow> sha256_state" where
  "sha256_assign (a, b, c, d, e, f, g, h) temp1 temp2 = (temp1 + temp2, a, b, c, d + temp1, e, f, g)"

fun sha256_round :: "u32 list \<Rightarrow> u32 list \<Rightarrow> nat \<Rightarrow> sha256_state \<Rightarrow> sha256_state option" where
  "sha256_round K w i (a, b, c, d, e, f, g, h) =
     do { S1 \<leftarrow> sha256_S1 e;
          S0 \<leftarrow> sha256_S0 a;
          Some (sha256_assign (a, b, c, d, e, f, g, h)
                  (h + S1 + ((e AND f) XOR (NOT e AND g)) + K ! i + w ! i)
                  (S0 + ((a AND b) XOR (a AND c) XOR (b AND c)))) }"

definition sha256_rounds :: "u32 list \<Rightarrow> sha256_state \<Rightarrow> u32 list \<Rightarrow> sha256_state option" where
  "sha256_rounds K st w = fold (\<lambda>i acc. acc \<bind> sha256_round K w i) [0..<64] (Some st)"

fun sha256_add :: "sha256_state \<Rightarrow> sha256_state \<Rightarrow> sha256_state" where
  "sha256_add (t0, t1, t2, t3, t4, t5, t6, t7) (a, b, c, d, e, f, g, h) =
     (t0 + a, t1 + b, t2 + c, t3 + d, t4 + e, t5 + f, t6 + g, t7 + h)"

text \<open>The body of the loop over the chunks: the per-block transform.\<close>

definition sha256_chunk :: "bool list \<Rightarrow> u32 list \<Rightarrow> nat \<Rightarrow> sha256_state \<Rightarrow> sha256_state option" where
  "sha256_chunk binMessage K chunkIter sqrtTemp =
     map_option (sha256_add sqrtTemp)
       (sha256_extend (sha256_words binMessage (chunkIter * 512)) \<bind> sha256_rounds K sqrtTemp)"

fun sha256_digest_bits :: "sha256_state \<Rightarrow> bool list" where
  "sha256_digest_bits (t0, t1, t2, t3, t4, t5, t6, t7) =
     concat (map (\<lambda>x. map (\<lambda>j. bit x j) (rev [0..<32])) [t0, t1, t2, t3, t4, t5, t6, t7])"

text \<open>
  \<open>processing(binMessage, H, K)\<close> returns the digest bits and may write one line to
  \<open>cerr\<close>; the model returns both, the lines written to \<open>cerr\<close> first.
\<close>

definition sha256_processing ::
  "bool list \<Rightarrow> sha256_state \<Rightarrow> u32 list \<Rightarrow> string list \<times> bool list option" where
  "sha256_processing binMessage H K =
     ((if length binMessage mod 512 \<noteq> 0
       then [''Error: Padded message length is not a multiple of 512 bits.'' @ [CHR 0x0A]] else []),
      map_option sha256_digest_bits
        (fold (\<lambda>chunkIter acc. acc \<bind> sha256_chunk binMessage K chunkIter)
           [0..<length binMessage div 512] (Some H)))"

definition sha256_H :: sha256_state where
  "sha256_H = (0x6a09e667, 0xbb67ae85, 0x3c6ef372, 0xa54ff53a, 0x510e527f, 0x9b05688c, 0x1f83d9ab, 0x5be0cd19)"

definition sha256_K :: "u32 list" where
  "sha256_K =
     [0x428a2f98, 0x71374491, 0xb5c0fbcf, 0xe9b5dba5]
     @ [0x3956c25b, 0x59f111f1, 0x923f82a4, 0xab1c5ed5]
     @ [0xd807aa98, 0x12835b01, 0x243185be, 0x550c7dc3]
     @ [0x72be5d74, 0x80deb1fe, 0x9bdc06a7, 0xc19bf174]
     @ [0xe49b69c1, 0xefbe4786, 0x0fc19dc6, 0x240ca1cc]
     @ [0x2de92c6f, 0x4a7484aa, 0x5cb0a9dc, 0x76f988da]
     @ [0x983e5152, 0xa831c66d, 0xb00327c8, 0xbf597fc7]
     @ [0xc6e00bf3, 0xd5a79147, 0x06ca6351, 0x14292967]
     @ [0x27b70a85, 0x2e1b2138, 0x4d2c6dfc, 0x53380d13]
     @ [0x650a7354, 0x766a0abb, 0x81c2c92e, 0x92722c85]
     @ [0xa2bfe8a1, 0xa81a664b, 0xc24b8b70, 0xc76c51a3]
     @ [0xd192e819, 0xd6990624, 0xf40e3585, 0x106aa070]
     @ [0x19a4c116, 0x1e376c08, 0x2748774c, 0x34b0bcb5]
     @ [0x391c0cb3, 0x4ed8aa4a, 0x5b9cca4f, 0x682e6ff3]
     @ [0x748f82ee, 0x78a5636f, 0x84c87814, 0x8cc70208]
     @ [0x90befffa, 0xa4506ceb, 0xbef9a3f7, 0xc67178f2]"

text \<open>
  \<open>sha256(strMessage)\<close>: the padded bit vector, the lines on \<open>cerr\<close>, and the text on
  \<open>cout\<close>: the first 256 bits of the result of \<open>processing\<close>, copied to a bitset of 256 bits,
  and rendered by \<open>bitsetToHex\<close>.
\<close>

definition sha256_padded :: "byte list \<Rightarrow> bool list" where
  "sha256_padded strMessage =
     sha256_preProcessing (length (TextToBinaryString strMessage)) (TextToBinaryString strMessage)"

definition sha256_cerr :: "byte list \<Rightarrow> string list" where
  "sha256_cerr strMessage = fst (sha256_processing (sha256_padded strMessage) sha256_H sha256_K)"

definition sha256_cout :: "bool list \<Rightarrow> string" where
  "sha256_cout hash = bitsetToHex (take 256 hash) 256"

definition sha256 :: "byte list \<Rightarrow> string option" where
  "sha256 strMessage =
     map_option sha256_cout (snd (sha256_processing (sha256_padded strMessage) sha256_H sha256_K))"

section \<open>SHA-384 (Sha384.cpp)\<close>

text \<open>
  \<open>preProcessing(length, binMessage)\<close>: the bit 1, zero bits while
  \<open>(length + 1 + K + 128) % 1024 != 0\<close>, and 128 bits: for \<open>i = 127 .. 0\<close> bit \<open>i\<close> of
  \<open>length\<close> when \<open>i < 64\<close>, and 0 otherwise.
\<close>

function sha384_zero_fill :: "nat \<Rightarrow> nat \<Rightarrow> bool list \<Rightarrow> bool list" where
  "sha384_zero_fill len K binMessage =
     (if (len + 1 + K + 128) mod 1024 \<noteq> 0
      then sha384_zero_fill len (K + 1) (binMessage @ [False]) else binMessage)"
  by pat_completeness auto
termination
proof (relation "measure (\<lambda>(len, K, binMessage). fill_dist 1024 0 (len + 1 + K + 128))")
  show "wf (measure (\<lambda>(len::nat, K::nat, binMessage::bool list). fill_dist 1024 0 (len + 1 + K + 128)))"
    by simp
next
  fix len K :: nat and binMessage :: "bool list"
  assume "(len + 1 + K + 128) mod 1024 \<noteq> 0"
  then show "((len, K + 1, binMessage @ [False]), (len, K, binMessage))
      \<in> measure (\<lambda>(len, K, binMessage). fill_dist 1024 0 (len + 1 + K + 128))"
    using fill_dist_Suc [of "len + 1 + K + 128" 1024 0] by simp
qed

definition sha384_preProcessing :: "nat \<Rightarrow> bool list \<Rightarrow> bool list" where
  "sha384_preProcessing len binMessage =
     sha384_zero_fill len 0 (binMessage @ [True])
       @ map (\<lambda>i. if i < 64 then bit len i else False) (rev [0..<128])"

type_synonym sha384_state = "u64 \<times> u64 \<times> u64 \<times> u64 \<times> u64 \<times> u64 \<times> u64 \<times> u64"

text \<open>The array \<open>w[80] = {}\<close> with its first sixteen entries,
  \<open>bitsToUsignedInt<uint64_t>(binMessage, pointer + i * 64)\<close>.\<close>

definition sha384_word :: "bool list \<Rightarrow> nat \<Rightarrow> nat \<Rightarrow> u64" where
  "sha384_word binMessage pointer i = bitsToUsignedInt binMessage (pointer + i * 64)"

definition sha384_words :: "bool list \<Rightarrow> nat \<Rightarrow> u64 list" where
  "sha384_words binMessage pointer = map (sha384_word binMessage pointer) [0..<16] @ replicate 64 0"

definition sha384_s0 :: "u64 \<Rightarrow> u64 option" where
  "sha384_s0 x =
     do { r1 \<leftarrow> rotateRightByN x 1 64; r8 \<leftarrow> rotateRightByN x 8 64;
          Some (r1 XOR r8 XOR drop_bit 7 x) }"

definition sha384_s1 :: "u64 \<Rightarrow> u64 option" where
  "sha384_s1 x =
     do { r19 \<leftarrow> rotateRightByN x 19 64; r61 \<leftarrow> rotateRightByN x 61 64;
          Some (r19 XOR r61 XOR drop_bit 6 x) }"

definition sha384_extend_step :: "nat \<Rightarrow> u64 list \<Rightarrow> u64 list option" where
  "sha384_extend_step i w =
     do { s0 \<leftarrow> sha384_s0 (w ! (i - 15)); s1 \<leftarrow> sha384_s1 (w ! (i - 2));
          Some (w[i := w ! (i - 16) + s0 + w ! (i - 7) + s1]) }"

definition sha384_extend :: "u64 list \<Rightarrow> u64 list option" where
  "sha384_extend w = fold (\<lambda>i acc. acc \<bind> sha384_extend_step i) [16..<80] (Some w)"

definition sha384_S1 :: "u64 \<Rightarrow> u64 option" where
  "sha384_S1 e =
     do { r14 \<leftarrow> rotateRightByN e 14 64; r18 \<leftarrow> rotateRightByN e 18 64;
          r41 \<leftarrow> rotateRightByN e 41 64; Some (r14 XOR r18 XOR r41) }"

definition sha384_S0 :: "u64 \<Rightarrow> u64 option" where
  "sha384_S0 a =
     do { r28 \<leftarrow> rotateRightByN a 28 64; r34 \<leftarrow> rotateRightByN a 34 64;
          r39 \<leftarrow> rotateRightByN a 39 64; Some (r28 XOR r34 XOR r39) }"

fun sha384_assign :: "sha384_state \<Rightarrow> u64 \<Rightarrow> u64 \<Rightarrow> sha384_state" where
  "sha384_assign (a, b, c, d, e, f, g, h) temp1 temp2 = (temp1 + temp2, a, b, c, d + temp1, e, f, g)"

fun sha384_round :: "u64 list \<Rightarrow> u64 list \<Rightarrow> nat \<Rightarrow> sha384_state \<Rightarrow> sha384_state option" where
  "sha384_round K w i (a, b, c, d, e, f, g, h) =
     do { S1 \<leftarrow> sha384_S1 e;
          S0 \<leftarrow> sha384_S0 a;
          Some (sha384_assign (a, b, c, d, e, f, g, h)
                  (h + S1 + ((e AND f) XOR (NOT e AND g)) + K ! i + w ! i)
                  (S0 + ((a AND b) XOR (a AND c) XOR (b AND c)))) }"

definition sha384_rounds :: "u64 list \<Rightarrow> sha384_state \<Rightarrow> u64 list \<Rightarrow> sha384_state option" where
  "sha384_rounds K st w = fold (\<lambda>i acc. acc \<bind> sha384_round K w i) [0..<80] (Some st)"

fun sha384_add :: "sha384_state \<Rightarrow> sha384_state \<Rightarrow> sha384_state" where
  "sha384_add (t0, t1, t2, t3, t4, t5, t6, t7) (a, b, c, d, e, f, g, h) =
     (t0 + a, t1 + b, t2 + c, t3 + d, t4 + e, t5 + f, t6 + g, t7 + h)"

definition sha384_chunk :: "bool list \<Rightarrow> u64 list \<Rightarrow> nat \<Rightarrow> sha384_state \<Rightarrow> sha384_state option" where
  "sha384_chunk binMessage K chunkIter sqrtTemp =
     map_option (sha384_add sqrtTemp)
       (sha384_extend (sha384_words binMessage (chunkIter * 1024)) \<bind> sha384_rounds K sqrtTemp)"

text \<open>The digest is the bits of the first six state words.\<close>

fun sha384_digest_bits :: "sha384_state \<Rightarrow> bool list" where
  "sha384_digest_bits (t0, t1, t2, t3, t4, t5, t6, t7) =
     concat (map (\<lambda>x. map (\<lambda>j. bit x j) (rev [0..<64])) [t0, t1, t2, t3, t4, t5])"

definition sha384_processing ::
  "bool list \<Rightarrow> sha384_state \<Rightarrow> u64 list \<Rightarrow> string list \<times> bool list option" where
  "sha384_processing binMessage H K =
     ((if length binMessage mod 1024 \<noteq> 0
       then [''Error: Padded message length is not a multiple of 1024 bits.'' @ [CHR 0x0A]] else []),
      map_option sha384_digest_bits
        (fold (\<lambda>chunkIter acc. acc \<bind> sha384_chunk binMessage K chunkIter)
           [0..<length binMessage div 1024] (Some H)))"

definition sha384_H :: sha384_state where
  "sha384_H = (0xcbbb9d5dc1059ed8, 0x629a292a367cd507, 0x9159015a3070dd17, 0x152fecd8f70e5939,
               0x67332667ffc00b31, 0x8eb44a8768581511, 0xdb0c2e0d64f98fa7, 0x47b5481dbefa4fa4)"

definition sha384_K :: "u64 list" where
  "sha384_K =
     [0x428a2f98d728ae22, 0x7137449123ef65cd, 0xb5c0fbcfec4d3b2f, 0xe9b5dba58189dbbc]
     @ [0x3956c25bf348b538, 0x59f111f1b605d019, 0x923f82a4af194f9b, 0xab1c5ed5da6d8118]
     @ [0xd807aa98a3030242, 0x12835b0145706fbe, 0x243185be4ee4b28c, 0x550c7dc3d5ffb4e2]
     @ [0x72be5d74f27b896f, 0x80deb1fe3b1696b1, 0x9bdc06a725c71235, 0xc19bf174cf692694]
     @ [0xe49b69c19ef14ad2, 0xefbe4786384f25e3, 0x0fc19dc68b8cd5b5, 0x240ca1cc77ac9c65]
     @ [0x2de92c6f592b0275, 0x4a7484aa6ea6e483, 0x5cb0a9dcbd41fbd4, 0x76f988da831153b5]
     @ [0x983e5152ee66dfab, 0xa831c66d2db43210, 0xb00327c898fb213f, 0xbf597fc7beef0ee4]
     @ [0xc6e00bf33da88fc2, 0xd5a79147930aa725, 0x06ca6351e003826f, 0x142929670a0e6e70]
     @ [0x27b70a8546d22ffc, 0x2e1b21385c26c926, 0x4d2c6dfc5ac42aed, 0x53380d139d95b3df]
     @ [0x650a73548baf63de, 0x766a0abb3c77b2a8, 0x81c2c92e47edaee6, 0x92722c851482353b]
     @ [0xa2bfe8a14cf10364, 0xa81a664bbc423001, 0xc24b8b70d0f89791, 0xc76c51a30654be30]
     @ [0xd192e819d6ef5218, 0xd69906245565a910, 0xf40e35855771202a, 0x106aa07032bbd1b8]
     @ [0x19a4c116b8d2d0c8, 0x1e376c085141ab53, 0x2748774cdf8eeb99, 0x34b0bcb5e19b48a8]
     @ [0x391c0cb3c5c95a63, 0x4ed8aa4ae3418acb, 0x5b9cca4f7763e373, 0x682e6ff3d6b2b8a3]
     @ [0x748f82ee5defb2fc, 0x78a5636f43172f60, 0x84c87814a1f0ab72, 0x8cc702081a6439ec]
     @ [0x90befffa23631e28, 0xa4506cebde82bde9, 0xbef9a3f7b2c67915, 0xc67178f2e372532b]
     @ [0xca273eceea26619c, 0xd186b8c721c0c207, 0xeada7dd6cde0eb1e, 0xf57d4f7fee6ed178]
     @ [0x06f067aa72176fba, 0x0a637dc5a2c898a6, 0x113f9804bef90dae, 0x1b710b35131c471b]
     @ [0x28db77f523047d84, 0x32caab7b40c72493, 0x3c9ebe0a15c9bebc, 0x431d67c49c100d4c]
     @ [0x4cc5d4becb3e42b6, 0x597f299cfc657e2a, 0x5fcb6fab3ad6faec, 0x6c44198c4a475817]"

definition sha384_padded :: "byte list \<Rightarrow> bool list" where
  "sha384_padded strMessage =
     sha384_preProcessing (length (TextToBinaryString strMessage)) (TextToBinaryString strMessage)"

definition sha384_cerr :: "byte list \<Rightarrow> string list" where
  "sha384_cerr strMessage = fst (sha384_processing (sha384_padded strMessage) sha384_H sha384_K)"

definition sha384_cout :: "bool list \<Rightarrow> string" where
  "sha384_cout hash = bitsetToHex (take 384 hash) 384"

definition sha384 :: "byte list \<Rightarrow> string option" where
  "sha384 strMessage =
     map_option sha384_cout (snd (sha384_processing (sha384_padded strMessage) sha384_H sha384_K))"

section \<open>The zero-fill loops in closed form\<close>

lemma fill_dist_step:
  assumes "n mod b \<noteq> t" "t < b"
  shows "fill_dist b t n = Suc (fill_dist b t (Suc n))"
proof -
  define r where "r = n mod b"
  have rb: "r < b" using assms by (simp add: r_def)
  have rt: "r \<noteq> t" using assms by (simp add: r_def)
  have "Suc n mod b = (if Suc r = b then 0 else Suc r)"
    by (simp add: mod_Suc r_def)
  then have "fill_dist b t (Suc n) =
      (if Suc r = b then t else if Suc r \<le> t then t - Suc r else b + t - Suc r)"
    by (simp add: fill_dist_def)
  moreover have "fill_dist b t n = (if r \<le> t then t - r else b + t - r)"
    by (simp add: fill_dist_def r_def)
  ultimately show ?thesis using rb rt assms(2) by (simp split: if_splits)
qed

lemma fill_dist_hit: "n mod b = t \<Longrightarrow> fill_dist b t n = 0"
  by (simp add: fill_dist_def)

lemma fill_dist_mod:
  assumes "t < b"
  shows "(n + fill_dist b t n) mod b = t"
proof (cases "n mod b \<le> t")
  case True
  have "(n + (t - n mod b)) mod b = (n mod b + (t - n mod b)) mod b"
    by (simp add: mod_add_left_eq)
  also have "\<dots> = t" using True assms by simp
  finally show ?thesis using True by (simp add: fill_dist_def)
next
  case False
  have "n mod b < b" using assms by simp
  then have eq: "n mod b + (b + t - n mod b) = b + t" by simp
  have "(n + (b + t - n mod b)) mod b = (n mod b + (b + t - n mod b)) mod b"
    by (simp add: mod_add_left_eq)
  also have "\<dots> = t" using assms by (simp only: eq) simp
  finally show ?thesis using False by (simp add: fill_dist_def)
qed

declare md5_zero_fill.simps [simp del]
declare sha1_zero_fill.simps [simp del]
declare sha256_zero_fill.simps [simp del]
declare sha384_zero_fill.simps [simp del]

lemma md5_zero_fill_eq: "md5_zero_fill p = p @ replicate (fill_dist 64 56 (length p)) 0"
proof (induction p rule: md5_zero_fill.induct)
  case (1 p)
  show ?case
  proof (cases "(length p * 8) mod 512 \<noteq> 448")
    case True
    then have ne: "length p mod 64 \<noteq> 56" by (simp add: bits_mod_512)
    have "md5_zero_fill p = md5_zero_fill (p @ [0])"
      using True by (subst md5_zero_fill.simps) simp
    also have "\<dots> = (p @ [0]) @ replicate (fill_dist 64 56 (Suc (length p))) 0"
      using "1.IH" [OF True] by simp
    also have "\<dots> = p @ replicate (Suc (fill_dist 64 56 (Suc (length p)))) 0"
      by simp
    finally show ?thesis using fill_dist_step [of "length p" 64 56] ne by simp
  next
    case False
    then have "length p mod 64 = 56" by (simp add: bits_mod_512)
    then have "fill_dist 64 56 (length p) = 0" by (rule fill_dist_hit)
    moreover have "md5_zero_fill p = p" using False by (subst md5_zero_fill.simps) simp
    ultimately show ?thesis by simp
  qed
qed

lemma sha1_zero_fill_eq: "sha1_zero_fill p = p @ replicate (fill_dist 64 56 (length p)) 0"
proof (induction p rule: sha1_zero_fill.induct)
  case (1 p)
  show ?case
  proof (cases "(length p * 8) mod 512 \<noteq> 448")
    case True
    then have ne: "length p mod 64 \<noteq> 56" by (simp add: bits_mod_512)
    have "sha1_zero_fill p = sha1_zero_fill (p @ [0])"
      using True by (subst sha1_zero_fill.simps) simp
    also have "\<dots> = (p @ [0]) @ replicate (fill_dist 64 56 (Suc (length p))) 0"
      using "1.IH" [OF True] by simp
    also have "\<dots> = p @ replicate (Suc (fill_dist 64 56 (Suc (length p)))) 0"
      by simp
    finally show ?thesis using fill_dist_step [of "length p" 64 56] ne by simp
  next
    case False
    then have "length p mod 64 = 56" by (simp add: bits_mod_512)
    then have "fill_dist 64 56 (length p) = 0" by (rule fill_dist_hit)
    moreover have "sha1_zero_fill p = p" using False by (subst sha1_zero_fill.simps) simp
    ultimately show ?thesis by simp
  qed
qed

lemma sha256_zero_fill_eq:
  "sha256_zero_fill len K binMessage =
     binMessage @ replicate (fill_dist 512 0 (len + 1 + K + 64)) False"
proof (induction len K binMessage rule: sha256_zero_fill.induct)
  case (1 len K binMessage)
  define n where "n = len + 1 + K + 64"
  have n': "len + 1 + (K + 1) + 64 = Suc n" by (simp add: n_def)
  show ?case
  proof (cases "n mod 512 \<noteq> 0")
    case True
    have c: "(len + 1 + K + 64) mod 512 \<noteq> 0" using True unfolding n_def .
    have step: "fill_dist 512 0 n = Suc (fill_dist 512 0 (Suc n))"
      by (rule fill_dist_step [OF True]) simp
    have "sha256_zero_fill len K binMessage = sha256_zero_fill len (K + 1) (binMessage @ [False])"
      by (subst sha256_zero_fill.simps) (rule if_P [OF c])
    also have "\<dots> = (binMessage @ [False]) @ replicate (fill_dist 512 0 (Suc n)) False"
      using "1.IH" [OF c] by (simp only: n')
    also have "\<dots> = binMessage @ replicate (Suc (fill_dist 512 0 (Suc n))) False"
      by simp
    finally show ?thesis unfolding step [symmetric] unfolding n_def .
  next
    case False
    have c: "\<not> (len + 1 + K + 64) mod 512 \<noteq> 0" using False unfolding n_def .
    from False have "fill_dist 512 0 n = 0" by (simp add: fill_dist_hit)
    moreover have "sha256_zero_fill len K binMessage = binMessage"
      by (subst sha256_zero_fill.simps) (rule if_not_P [OF c])
    ultimately show ?thesis by (simp add: n_def)
  qed
qed

lemma sha384_zero_fill_eq:
  "sha384_zero_fill len K binMessage =
     binMessage @ replicate (fill_dist 1024 0 (len + 1 + K + 128)) False"
proof (induction len K binMessage rule: sha384_zero_fill.induct)
  case (1 len K binMessage)
  define n where "n = len + 1 + K + 128"
  have n': "len + 1 + (K + 1) + 128 = Suc n" by (simp add: n_def)
  show ?case
  proof (cases "n mod 1024 \<noteq> 0")
    case True
    have c: "(len + 1 + K + 128) mod 1024 \<noteq> 0" using True unfolding n_def .
    have step: "fill_dist 1024 0 n = Suc (fill_dist 1024 0 (Suc n))"
      by (rule fill_dist_step [OF True]) simp
    have "sha384_zero_fill len K binMessage = sha384_zero_fill len (K + 1) (binMessage @ [False])"
      by (subst sha384_zero_fill.simps) (rule if_P [OF c])
    also have "\<dots> = (binMessage @ [False]) @ replicate (fill_dist 1024 0 (Suc n)) False"
      using "1.IH" [OF c] by (simp only: n')
    also have "\<dots> = binMessage @ replicate (Suc (fill_dist 1024 0 (Suc n))) False"
      by simp
    finally show ?thesis unfolding step [symmetric] unfolding n_def .
  next
    case False
    have c: "\<not> (len + 1 + K + 128) mod 1024 \<noteq> 0" using False unfolding n_def .
    from False have "fill_dist 1024 0 n = 0" by (simp add: fill_dist_hit)
    moreover have "sha384_zero_fill len K binMessage = binMessage"
      by (subst sha384_zero_fill.simps) (rule if_not_P [OF c])
    ultimately show ?thesis by (simp add: n_def)
  qed
qed

text \<open>The lengths of the padded messages.\<close>

lemma length_md5_pad: "length (md5_pad message) mod 64 = 0"
proof -
  define A where "A = length message + 1 + fill_dist 64 56 (length message + 1)"
  have len: "length (md5_pad message) = A + 8"
    by (simp add: md5_pad_def md5_zero_fill_eq md5_length_bytes_def A_def)
  have A: "A mod 64 = 56"
    unfolding A_def by (rule fill_dist_mod) simp
  have "(A + 8) mod 64 = (A mod 64 + 8) mod 64"
    by (rule mod_add_left_eq [symmetric])
  also have "\<dots> = 0" by (simp only: A) simp
  finally show ?thesis by (simp only: len)
qed

lemma length_sha1_pad: "length (sha1_pad message) mod 64 = 0"
proof -
  define A where "A = length message + 1 + fill_dist 64 56 (length message + 1)"
  have len: "length (sha1_pad message) = A + 8"
    by (simp add: sha1_pad_def sha1_zero_fill_eq sha1_length_bytes_def A_def)
  have A: "A mod 64 = 56"
    unfolding A_def by (rule fill_dist_mod) simp
  have "(A + 8) mod 64 = (A mod 64 + 8) mod 64"
    by (rule mod_add_left_eq [symmetric])
  also have "\<dots> = 0" by (simp only: A) simp
  finally show ?thesis by (simp only: len)
qed

lemma length_sha256_preProcessing:
  "length (sha256_preProcessing (length binMessage) binMessage) mod 512 = 0"
proof -
  have "length (sha256_preProcessing (length binMessage) binMessage)
      = (length binMessage + 1 + 0 + 64) + fill_dist 512 0 (length binMessage + 1 + 0 + 64)"
    by (simp add: sha256_preProcessing_def sha256_zero_fill_eq)
  moreover have "((length binMessage + 1 + 0 + 64)
      + fill_dist 512 0 (length binMessage + 1 + 0 + 64)) mod 512 = 0"
    by (rule fill_dist_mod) simp
  ultimately show ?thesis by simp
qed

lemma length_sha384_preProcessing:
  "length (sha384_preProcessing (length binMessage) binMessage) mod 1024 = 0"
proof -
  have "length (sha384_preProcessing (length binMessage) binMessage)
      = (length binMessage + 1 + 0 + 128) + fill_dist 1024 0 (length binMessage + 1 + 0 + 128)"
    by (simp add: sha384_preProcessing_def sha384_zero_fill_eq)
  moreover have "((length binMessage + 1 + 0 + 128)
      + fill_dist 1024 0 (length binMessage + 1 + 0 + 128)) mod 1024 = 0"
    by (rule fill_dist_mod) simp
  ultimately show ?thesis by simp
qed

section \<open>Evaluation\<close>

text \<open>
  The loops of the programs run over index ranges that start at 0; the simplifier unrolls
  a range between numerals by itself, and these two rules lead it there.
\<close>

lemma upt_0_eval: "[0..<numeral n] = 0 # [Suc 0..<numeral n]"
  by (subst upt_rec) simp

lemma upt_Suc_0_eval:
  "[Suc 0..<numeral n] = (if Suc 0 < numeral n then Suc 0 # [2..<numeral n] else [])"
  by (subst upt_rec) (simp add: numeral_2_eq_2)

lemma replicate_numeral_eval: "replicate (numeral k) x = x # replicate (pred_numeral k) x"
  by (simp add: numeral_eq_Suc)

lemmas upt_literals = upt_0_eval upt_Suc_0_eval replicate_numeral_eval

lemmas zero_fill_eval =
  md5_zero_fill_eq sha1_zero_fill_eq sha256_zero_fill_eq sha384_zero_fill_eq fill_dist_def

text \<open>
  A word is its own lowest bits; the simplifier keeps numerals of words as they come, so the
  left shifts inside the rotations are cut back to the width for it.
\<close>

lemma leftRotate_eval:
  "leftRotate x c =
     (if c < 32 \<and> 32 - c < 32
      then Some (take_bit 32 (push_bit c x) OR drop_bit (32 - c) x) else None)"
  by (simp add: leftRotate_def take_bit_word_eq_self)

lemma rotateRightByN_eval:
  "rotateRightByN (x :: 'a::len word) n digestsBit =
     (if n < LENGTH('a) \<and> n \<le> digestsBit \<and> digestsBit - n < LENGTH('a)
      then Some (drop_bit n x OR take_bit LENGTH('a) (push_bit (digestsBit - n) x)) else None)"
  by (simp add: rotateRightByN_def take_bit_word_eq_self)

lemmas hex_eval =
  zero_fill_eval print_hex_def setw_fill_def hex_digit_def md5_print_byte_def md5_print_word_def sha1_print_word_def

lemmas md5_eval =
  md5_def md5_digest_def md5_pad_def md5_length_bytes_def md5_block_def md5_words_def
  md5_decode_def md5_word_bytes_def md5_rounds_def md5_init_def leftRotate_eval md5_K_def
  md5_S_def md5_F_def md5_G_def md5_H_def md5_I_def hex_eval upt_literals

lemmas md5s_eval =
  md5s_main_def md5s_digest_def md5s_padding_def md5s_first_pass_def md5s_second_pass_def
  md5s_store_length_def memcpy_def memset0_def md5s_transform_def md5s_run_def md5s_steps_def
  md5s_words_def STEP1_def STEP2_def STEP3_def STEP4_def md5s_step_def md5_decode_def
  md5_word_bytes_def md5_init_def leftRotate_eval md5_K_def md5_F_def md5_G_def md5_H_def
  md5_I_def hex_eval upt_literals

lemmas sha1_eval =
  sha1_def sha1_digest_def sha1_pad_def sha1_length_bytes_def sha1_block_def sha1_words_def
  sha1_decode_def sha1_extend_def sha1_extend_step_def sha1_rounds_def sha1_f_def sha1_k_def
  sha1_init_def leftRotate_eval hex_eval upt_literals

lemmas sha_h_eval =
  TextToBinaryString_def bitsToUsignedInt_def rotateRightByN_eval nibble_at_def bitsetToHex_def
  hex_digit_def zero_fill_eval upt_literals

lemmas sha256_eval =
  sha256_def sha256_cerr_def sha256_padded_def sha256_preProcessing_def sha256_processing_def
  sha256_chunk_def sha256_cout_def sha256_word_def sha256_words_def sha256_extend_def sha256_extend_step_def sha256_s0_def
  sha256_s1_def sha256_S0_def sha256_S1_def sha256_rounds_def sha256_H_def sha256_K_def sha_h_eval

lemmas sha384_eval =
  sha384_def sha384_cerr_def sha384_padded_def sha384_preProcessing_def sha384_processing_def
  sha384_chunk_def sha384_cout_def sha384_word_def sha384_words_def sha384_extend_def sha384_extend_step_def sha384_s0_def
  sha384_s1_def sha384_S0_def sha384_S1_def sha384_rounds_def sha384_H_def sha384_K_def sha_h_eval

section \<open>No rotation is undefined\<close>

lemma fold_bind_total:
  assumes "\<And>j s. j \<in> set js \<Longrightarrow> f j s \<noteq> None"
  shows "fold (\<lambda>j acc. acc \<bind> f j) js (Some s) \<noteq> None"
  using assms
proof (induction js arbitrary: s)
  case Nil
  then show ?case by simp
next
  case (Cons j js)
  from Cons.prems [of j s] obtain s1 where s1: "f j s = Some s1" by auto
  have "fold (\<lambda>j acc. acc \<bind> f j) js (Some s1) \<noteq> None"
    by (rule Cons.IH) (simp add: Cons.prems)
  then show ?case by (simp add: s1)
qed

lemma bind_total:
  assumes "x \<noteq> None" "\<And>y. f y \<noteq> None"
  shows "x \<bind> f \<noteq> None"
  using assms by (cases x) simp_all

lemma md5_S_range:
  assumes "j < 64"
  shows "0 < md5_S ! j \<and> md5_S ! j < 32"
proof -
  have "list_all (\<lambda>c. 0 < c \<and> c < 32) md5_S"
    by (simp add: md5_S_def)
  moreover have "length md5_S = 64" by (simp add: md5_S_def)
  ultimately show ?thesis using assms by (simp add: list_all_length)
qed

lemma md5_round_total:
  assumes "j < 64"
  shows "md5_round M j st \<noteq> None"
proof (cases st)
  case (fields A B C D)
  from md5_S_range [OF assms] show ?thesis
    by (simp add: fields leftRotate_def Let_def)
qed

lemma md5_rounds_total: "md5_rounds M st \<noteq> None"
  unfolding md5_rounds_def by (rule fold_bind_total) (simp add: md5_round_total)

lemma md5_block_total: "md5_block p i st \<noteq> None"
  by (simp add: md5_block_def md5_rounds_total)

lemma md5s_step_total:
  assumes "0 < s" "s < 32"
  shows "md5s_step fn M a b c d k s i st \<noteq> None"
  using assms by (simp add: md5s_step_def leftRotate_def)

lemma md5s_steps_total: "list_all (\<lambda>step. \<forall>st. step st \<noteq> None) (md5s_steps M)"
  by (simp add: md5s_steps_def STEP1_def STEP2_def STEP3_def STEP4_def md5s_step_total
      del: not_None_eq split_paired_All)

lemma md5s_run_total: "md5s_run M st \<noteq> None"
  unfolding md5s_run_def
proof (rule fold_bind_total)
  fix step :: "md5_state \<Rightarrow> md5_state option" and st
  assume "step \<in> set (md5s_steps M)"
  with md5s_steps_total [of M] have "\<forall>st. step st \<noteq> None"
    unfolding list_all_iff by blast
  then show "step st \<noteq> None" by blast
qed

lemma md5s_transform_total: "md5s_transform block st \<noteq> None"
  by (simp add: md5s_transform_def md5s_run_total)

lemma sha1_extend_total: "sha1_extend w \<noteq> None"
  unfolding sha1_extend_def
  by (rule fold_bind_total) (simp add: sha1_extend_step_def leftRotate_def)

lemma sha1_round_total: "sha1_round w j st \<noteq> None"
  by (cases rule: sha1_round.cases [of "(w, j, st)"]) (simp add: leftRotate_def del: not_None_eq)

lemma sha1_rounds_total: "sha1_rounds st w \<noteq> None"
  unfolding sha1_rounds_def by (rule fold_bind_total) (simp add: sha1_round_total)

lemma sha1_block_total: "sha1_block p i st \<noteq> None"
  by (simp add: sha1_block_def bind_total sha1_extend_total sha1_rounds_total)

lemma sha256_extend_total: "sha256_extend w \<noteq> None"
  unfolding sha256_extend_def
  by (rule fold_bind_total)
    (simp add: sha256_extend_step_def sha256_s0_def sha256_s1_def rotateRightByN_def)

lemma sha256_round_total: "sha256_round K w i st \<noteq> None"
  by (cases rule: sha256_round.cases [of "(K, w, i, st)"])
    (simp add: sha256_S0_def sha256_S1_def rotateRightByN_def del: not_None_eq)

lemma sha256_rounds_total: "sha256_rounds K st w \<noteq> None"
  unfolding sha256_rounds_def by (rule fold_bind_total) (simp add: sha256_round_total)

lemma sha256_chunk_total: "sha256_chunk binMessage K chunkIter st \<noteq> None"
  by (simp add: sha256_chunk_def bind_total sha256_extend_total sha256_rounds_total)

lemma sha384_extend_total: "sha384_extend w \<noteq> None"
  unfolding sha384_extend_def
  by (rule fold_bind_total)
    (simp add: sha384_extend_step_def sha384_s0_def sha384_s1_def rotateRightByN_def)

lemma sha384_round_total: "sha384_round K w i st \<noteq> None"
  by (cases rule: sha384_round.cases [of "(K, w, i, st)"])
    (simp add: sha384_S0_def sha384_S1_def rotateRightByN_def del: not_None_eq)

lemma sha384_rounds_total: "sha384_rounds K st w \<noteq> None"
  unfolding sha384_rounds_def by (rule fold_bind_total) (simp add: sha384_round_total)

lemma sha384_chunk_total: "sha384_chunk binMessage K chunkIter st \<noteq> None"
  by (simp add: sha384_chunk_def bind_total sha384_extend_total sha384_rounds_total)

section \<open>Test vectors\<close>

text \<open>
  C7. The one-shot \<open>md5\<close> applied to the message of length zero prints
  \<open>d41d8cd98f00b204e9800998ecf8427e\<close>.
\<close>

theorem md5_empty_vector: "md5 [] = Some ''d41d8cd98f00b204e9800998ecf8427e''"
  by (simp add: md5_eval)

text \<open>The three bytes of \<open>abc\<close>.\<close>

lemma sha1_abc_digest:
  "sha1 [0x61, 0x62, 0x63] = Some ''a9993e364706816aba3e25717850c26c9cd0d89d''"
  by (simp add: sha1_eval)

text \<open>
  C4, as amended. The one-shot \<open>sha1\<close> applied to \<open>abc\<close> prints the forty characters
  \<open>a9993e364706816aba3e25717850c26c9cd0d89d\<close>.
\<close>

theorem sha1_abc_vector:
  "sha1 [0x61, 0x62, 0x63] = Some ''a9993e364706816aba3e25717850c26c9cd0d89d''"
  by (rule sha1_abc_digest)

text \<open>
  C4, as stated, fails: the string of the claim has thirty-nine characters, the final
  \<open>d\<close> of the digest is missing from it.
\<close>

theorem sha1_abc_stated_counterexample:
  "sha1 [0x61, 0x62, 0x63] \<noteq> Some ''a9993e364706816aba3e25717850c26c9cd0d89''"
  by (simp add: sha1_abc_digest)

section \<open>The streaming MD5 program against the one-shot function\<close>

text \<open>A message of 63 bytes, each the letter \<open>a\<close>: its tail after the read loop has 63 bytes.\<close>

definition message_63 :: "byte list" where
  "message_63 = replicate 63 0x61"

lemma md5_message_63: "md5 message_63 = Some ''b06521f39153d618550606be297466d5''"
  by (simp add: message_63_def md5_eval)

lemma md5s_main_message_63: "md5s_main message_63 = Some ''5f8d347c9de763caa632d5a31843490e''"
  by (simp add: message_63_def md5s_eval)

text \<open>
  A tail of 56 to 63 bytes: after the read loop the program calls \<open>transform\<close> three times,
  on \<open>padding\<close>, on \<open>finalBlock\<close>, which holds the same bytes, and on the block with the
  length field.
\<close>

lemma md5s_three_transforms:
  assumes "56 \<le> length input" "length input < 64"
  shows "md5s_digest input =
     ((Some md5_init \<bind> md5s_transform (md5s_padding (input @ drop (length input) (replicate 64 0)) (length input)))
        \<bind> md5s_transform (md5s_padding (input @ drop (length input) (replicate 64 0)) (length input)))
        \<bind> md5s_transform
             (md5s_store_length
                (memset0 (md5s_padding (input @ drop (length input) (replicate 64 0)) (length input)) 64)
                (of_nat (length input) * 8))"
  using assms
  by (simp add: md5s_digest_def md5s_first_pass_def md5s_second_pass_def)

text \<open>
  C1 at the 63-byte message: the streaming program and the one-shot function print
  different digests.
\<close>

theorem md5_streaming_differs_at_63: "md5s_main message_63 \<noteq> md5 message_63"
  by (simp add: md5_message_63 md5s_main_message_63)

text \<open>
  C2 at the 63-byte message: the streaming program prints
  \<open>5f8d347c9de763caa632d5a31843490e\<close>, and the MD5 digest of the message, which the
  one-shot function prints, is \<open>b06521f39153d618550606be297466d5\<close>.
\<close>

theorem md5_streaming_two_block_path_at_63:
  "md5s_main message_63 = Some ''5f8d347c9de763caa632d5a31843490e''
   \<and> md5 message_63 = Some ''b06521f39153d618550606be297466d5''"
  by (simp add: md5_message_63 md5s_main_message_63)

section \<open>Padding\<close>

text \<open>
  C6. For every message the padded bit vector of SHA-256 has a multiple of 512 bits and
  that of SHA-384 a multiple of 1024 bits, and \<open>processing\<close> writes nothing to \<open>cerr\<close>.
\<close>

theorem padded_length_multiple_of_block:
  "length (sha256_padded strMessage) mod 512 = 0 \<and> sha256_cerr strMessage = []
   \<and> length (sha384_padded strMessage) mod 1024 = 0 \<and> sha384_cerr strMessage = []"
  by (simp add: sha256_padded_def sha256_cerr_def sha256_processing_def
      length_sha256_preProcessing sha384_padded_def sha384_cerr_def sha384_processing_def
      length_sha384_preProcessing)

section \<open>SHA-384 on the empty message\<close>

text \<open>
  The padded empty message is the bit 1 followed by 1023 zero bits, and its first 64-bit
  word, read most significant bit first, is \<open>0x8000000000000000\<close>. The loop of
  \<open>bitsToUsignedInt\<close> stops after 32 bits for \<open>uint64_t\<close> too: the word the program
  loads is \<open>0x80000000\<close>.
\<close>

lemma sha384_empty_first_word: "sha384_word (sha384_padded []) 0 0 = 0x80000000"
  by (simp add: sha384_eval)

lemma sha384_empty_digest:
  "sha384 [] = Some ''7907b6a753bd787089b1b1ee78aa4a584cd3c887464101f5672da27d47f25658583b2e9a0b5d5107872c650b541853cb''"
  by (simp add: sha384_eval)

text \<open>
  C3 at the empty message: \<open>sha384\<close> prints \<open>7907b6a7...\<close>, not the published digest
  \<open>38b060a7...\<close>, and the first word of the block is not the one the bit vector holds.
\<close>

theorem sha384_empty_vector_differs:
  "sha384 [] \<noteq> Some ''38b060a751ac96384cd9327eb1b1e36a21fdb71114be07434c0cc7bf63f6e1da274edebfe76f65fbd51ad2f14898b95b''
   \<and> sha384_word (sha384_padded []) 0 0 \<noteq> 0x8000000000000000"
  by (simp add: sha384_empty_digest sha384_empty_first_word)

section \<open>Rotation counts\<close>

text \<open>
  C10. The rotations are defined exactly for a count strictly between 0 and the width;
  the entries of \<open>S\<close> lie in 4..23; and no per-block transform of the five programs
  reaches an undefined rotation, whatever the block and the state: each returns a state.
\<close>

theorem rotation_counts_defined:
  "(leftRotate x c \<noteq> None) = (0 < c \<and> c < 32)
   \<and> (rotateRightByN (y :: u32) n 32 \<noteq> None) = (0 < n \<and> n < 32)
   \<and> (rotateRightByN (z :: u64) m 64 \<noteq> None) = (0 < m \<and> m < 64)
   \<and> list_all (\<lambda>c. 4 \<le> c \<and> c \<le> 23) md5_S
   \<and> md5_block p i st \<noteq> None
   \<and> md5s_transform block st \<noteq> None
   \<and> sha1_block p1 i1 st1 \<noteq> None
   \<and> sha256_chunk binMessage K chunkIter st2 \<noteq> None
   \<and> sha384_chunk binMessage' K' chunkIter' st3 \<noteq> None"
proof -
  have "(leftRotate x c \<noteq> None) = (0 < c \<and> c < 32)"
    by (auto simp: leftRotate_def)
  moreover have "(rotateRightByN y n 32 \<noteq> None) = (0 < n \<and> n < 32)"
    by (auto simp: rotateRightByN_def)
  moreover have "(rotateRightByN z m 64 \<noteq> None) = (0 < m \<and> m < 64)"
    by (auto simp: rotateRightByN_def)
  moreover have "list_all (\<lambda>c. 4 \<le> c \<and> c \<le> 23) md5_S"
    by (simp add: md5_S_def)
  ultimately show ?thesis
    using md5_block_total md5s_transform_total sha1_block_total sha256_chunk_total
      sha384_chunk_total
    by blast
qed

end
